theory Spec2Isabelle
  imports Main "HOL-Library.Product_Lexorder" "HOL-Library.Multiset"
begin

section \<open>The genomics dashboard: data, filters and charts\<close>

text \<open>
  The program is one script, \<^verbatim>\<open>mini_genomics_dashboard.py\<close>. It builds a table of eight
  samples, reads three sidebar widgets, keeps the rows that pass the widgets' filters and
  draws three charts of the rows kept. The script is modelled section by section: a table
  is the list of its rows in row order, a column is the list of one field, a boolean mask
  is a list of booleans, and every place where Python would raise is a value \<open>Inl e\<close> of a
  sum type. The static text of the page (title, introduction, conclusions) is left out.
\<close>

subsection \<open>Errors\<close>

datatype error = ValueError

subsection \<open>Dates\<close>

text \<open>
  A calendar date is year, month, day. The order on triples is the lexicographic one, which
  is the order of the calendar. Every \<^verbatim>\<open>Timestamp\<close> of the script is a date at midnight
  (the table's strings carry no time of day, and the date widget returns
  \<^verbatim>\<open>datetime.date\<close> values), so a timestamp is represented by its date.
\<close>

type_synonym date = "nat \<times> nat \<times> nat"
type_synonym timestamp = "nat \<times> nat \<times> nat"

definition digit :: "char \<Rightarrow> nat option" where
  "digit c = map_of
     [(CHR ''0'', 0), (CHR ''1'', 1), (CHR ''2'', 2), (CHR ''3'', 3), (CHR ''4'', 4),
      (CHR ''5'', 5), (CHR ''6'', 6), (CHR ''7'', 7), (CHR ''8'', 8), (CHR ''9'', 9)] c"

definition number :: "nat list \<Rightarrow> nat" where
  "number ds = foldl (\<lambda>a d. 10 * a + d) 0 ds"

definition leap_year :: "nat \<Rightarrow> bool" where
  "leap_year y = (y mod 4 = 0 \<and> (y mod 100 \<noteq> 0 \<or> y mod 400 = 0))"

definition days_in_month :: "nat \<Rightarrow> nat \<Rightarrow> nat" where
  "days_in_month y m =
     (if m = 2 then (if leap_year y then 29 else 28)
      else if m = 4 \<or> m = 6 \<or> m = 9 \<or> m = 11 then 30
      else 31)"

text \<open>
  \<^verbatim>\<open>pd.to_datetime\<close> on a string. The strings of the script all have the form
  \<^verbatim>\<open>YYYY-MM-DD\<close>; that form is parsed, and anything else is the \<^verbatim>\<open>ValueError\<close> pandas
  raises on a string that is no date.
\<close>

definition to_datetime :: "string \<Rightarrow> error + timestamp" where
  "to_datetime s =
     (case s of
        [y1, y2, y3, y4, s1, m1, m2, s2, d1, d2] \<Rightarrow>
          (case (those (map digit [y1, y2, y3, y4]), those (map digit [m1, m2]),
                 those (map digit [d1, d2])) of
             (Some ys, Some ms, Some ds) \<Rightarrow>
               (let y = number ys; m = number ms; d = number ds in
                if s1 = CHR ''-'' \<and> s2 = CHR ''-'' \<and> 1 \<le> m \<and> m \<le> 12 \<and>
                   1 \<le> d \<and> d \<le> days_in_month y m
                then Inr (y, m, d) else Inl ValueError)
           | _ \<Rightarrow> Inl ValueError)
      | _ \<Rightarrow> Inl ValueError)"

text \<open>\<^verbatim>\<open>pd.to_datetime\<close> on a \<^verbatim>\<open>datetime.date\<close>: the timestamp at midnight of that day.\<close>

definition to_datetime_date :: "date \<Rightarrow> timestamp" where
  "to_datetime_date d = d"

subsection \<open>The table\<close>

text \<open>
  A row of the table: its label in the frame's index and the five columns. The type of
  the \<^verbatim>\<open>Date\<close> column is a parameter, since the frame is built with strings there and
  the column is replaced by timestamps afterwards.
\<close>

record 'd row =
  row_label :: nat
  Sample_ID :: string
  Date :: 'd
  Region :: string
  Variant :: string
  Genome_Length :: int

type_synonym dataframe = "timestamp row list"

text \<open>The dictionary \<^verbatim>\<open>data\<close> of \<^verbatim>\<open>load_data\<close>: one list per column.\<close>

record columns =
  col_Sample_ID :: "string list"
  col_Date :: "string list"
  col_Region :: "string list"
  col_Variant :: "string list"
  col_Genome_Length :: "int list"

fun rows_from :: "nat \<Rightarrow> string list \<Rightarrow> 'd list \<Rightarrow> string list \<Rightarrow> string list \<Rightarrow> int list
    \<Rightarrow> 'd row list" where
  "rows_from i (a # as) (b # bs) (c # cs) (d # ds) (e # es) =
     \<lparr>row_label = i, Sample_ID = a, Date = b, Region = c, Variant = d, Genome_Length = e\<rparr>
       # rows_from (Suc i) as bs cs ds es"
| "rows_from i _ _ _ _ _ = []"

text \<open>
  \<^verbatim>\<open>pd.DataFrame(data)\<close>: the rows are labelled 0, 1, 2, ... and columns of different
  lengths are a \<^verbatim>\<open>ValueError\<close>.
\<close>

definition DataFrame :: "columns \<Rightarrow> error + string row list" where
  "DataFrame c =
     (let n = length (col_Sample_ID c) in
      if length (col_Date c) = n \<and> length (col_Region c) = n \<and>
         length (col_Variant c) = n \<and> length (col_Genome_Length c) = n
      then Inr (rows_from 0 (col_Sample_ID c) (col_Date c) (col_Region c) (col_Variant c)
                  (col_Genome_Length c))
      else Inl ValueError)"

text \<open>\<^verbatim>\<open>df['Date'] = pd.to_datetime(df['Date'])\<close>: the first string that is no date raises.\<close>

fun set_Date_to_datetime :: "string row list \<Rightarrow> error + dataframe" where
  "set_Date_to_datetime [] = Inr []"
| "set_Date_to_datetime (r # rs) =
     (case to_datetime (Date r) of
        Inl e \<Rightarrow> Inl e
      | Inr t \<Rightarrow>
          (case set_Date_to_datetime rs of
             Inl e \<Rightarrow> Inl e
           | Inr rs' \<Rightarrow>
               Inr (\<lparr>row_label = row_label r, Sample_ID = Sample_ID r, Date = t,
                      Region = Region r, Variant = Variant r,
                      Genome_Length = Genome_Length r\<rparr> # rs')))"

definition data :: columns where
  "data =
     \<lparr>col_Sample_ID = [''BR001'', ''BR002'', ''BR003'', ''MX001'', ''MX002'', ''US001'',
                        ''US002'', ''US003''],
      col_Date = [''2021-01-15'', ''2021-02-10'', ''2021-03-05'', ''2021-02-20'',
                  ''2021-03-12'', ''2021-01-25'', ''2021-02-15'', ''2021-03-02''],
      col_Region = [''Brazil'', ''Brazil'', ''Brazil'', ''Mexico'', ''Mexico'', ''USA'',
                    ''USA'', ''USA''],
      col_Variant = [''Gamma'', ''Gamma'', ''Delta'', ''Delta'', ''Omicron'', ''Delta'',
                     ''Omicron'', ''Gamma''],
      col_Genome_Length = [29903, 29903, 29850, 29900, 29870, 29910, 29865, 29903]\<rparr>"

definition load_data :: "error + dataframe" where
  "load_data =
     (case DataFrame data of
        Inl e \<Rightarrow> Inl e
      | Inr df \<Rightarrow> set_Date_to_datetime df)"

subsection \<open>Sidebar filters\<close>

text \<open>
  What the three widgets return: the tuple of the date widget (a list, since the widget
  returns a tuple of one date while only the start of a range is picked), and the lists
  of the two multiselects.
\<close>

record widgets =
  date_range :: "date list"
  selected_regions :: "string list"
  selected_variants :: "string list"

text \<open>Comparing a column with a scalar, \<^verbatim>\<open>isin\<close>, and \<^verbatim>\<open>&\<close> on masks, all elementwise.\<close>

definition series_ge :: "timestamp list \<Rightarrow> timestamp \<Rightarrow> bool list" where
  "series_ge col t = map (\<lambda>d. t \<le> d) col"

definition series_le :: "timestamp list \<Rightarrow> timestamp \<Rightarrow> bool list" where
  "series_le col t = map (\<lambda>d. d \<le> t) col"

definition isin :: "string list \<Rightarrow> string list \<Rightarrow> bool list" where
  "isin col vals = map (\<lambda>v. v \<in> set vals) col"

definition series_and :: "bool list \<Rightarrow> bool list \<Rightarrow> bool list" where
  "series_and a b = map2 (\<and>) a b"

text \<open>
  \<^verbatim>\<open>df[mask]\<close>: a new frame of the rows whose mask entry is true, in order, each with its
  label. The masks of the script are computed from the frame's own columns, so they have
  the frame's length and labels.
\<close>

definition getitem_mask :: "'a list \<Rightarrow> bool list \<Rightarrow> 'a list" where
  "getitem_mask df msk = map fst (filter snd (zip df msk))"

text \<open>
  Lines 82 to 88. Unpacking \<^verbatim>\<open>start_date, end_date = date_range\<close> raises
  \<^verbatim>\<open>ValueError\<close> unless the tuple has exactly two elements.
\<close>

definition df_filtered :: "dataframe \<Rightarrow> widgets \<Rightarrow> error + dataframe" where
  "df_filtered df w =
     (case date_range w of
        [start_date, end_date] \<Rightarrow>
          Inr (getitem_mask df
            (series_and
              (series_and
                (series_and
                  (series_ge (map Date df) (to_datetime_date start_date))
                  (series_le (map Date df) (to_datetime_date end_date)))
                (isin (map Region df) (selected_regions w)))
              (isin (map Variant df) (selected_variants w))))
      | _ \<Rightarrow> Inl ValueError)"

text \<open>The filter state of a date interval and two selections.\<close>

definition filter_state :: "date \<Rightarrow> date \<Rightarrow> string list \<Rightarrow> string list \<Rightarrow> widgets" where
  "filter_state start_date end_date regions variants =
     \<lparr>date_range = [start_date, end_date], selected_regions = regions,
      selected_variants = variants\<rparr>"

subsection \<open>Charts\<close>

text \<open>
  \<^verbatim>\<open>Series.unique\<close>: the distinct values in order of first appearance.
\<close>

fun unique :: "'a list \<Rightarrow> 'a list" where
  "unique [] = []"
| "unique (x # xs) = x # unique (filter (\<lambda>y. y \<noteq> x) xs)"

text \<open>
  Line 104, \<^verbatim>\<open>value_counts().reset_index()\<close>, and line 105, which names the two columns:
  a table with one row (Variant, Count) per distinct value of the column, the largest
  count first. Values with the same count are kept here in order of first appearance;
  pandas promises no order among them, and no property below depends on it. The column
  holds strings only, so no value is dropped as missing.
\<close>

type_synonym counts = "(string \<times> nat) list"

definition value_counts :: "string list \<Rightarrow> counts" where
  "value_counts col =
     sort_key (\<lambda>p. - int (snd p)) (map (\<lambda>v. (v, count_list col v)) (unique col))"

definition variant_counts :: "dataframe \<Rightarrow> counts" where
  "variant_counts f = value_counts (map Variant f)"

text \<open>
  A figure is the data it is drawn from and its title; an element is one thing the script
  puts on the page. \<open>Filtered_count n\<close> is the line
  \<^verbatim>\<open>**Current number of filtered samples**: n\<close>, and \<open>Dataframe f\<close> the table inside the
  expander.
\<close>

datatype figure =
  Bar counts string
| Scatter dataframe string
| Box dataframe string

datatype element =
  Filtered_count nat
| Dataframe dataframe
| Subheader string
| Warning string
| Plotly_chart figure

text \<open>Section 6.1, lines 103 to 117.\<close>

definition fig_bar :: "dataframe \<Rightarrow> element list" where
  "fig_bar f =
     (let vc = variant_counts f in
      [Subheader ''Frequency of Variants (Filtered)'',
       if length vc = 0 then Warning ''No data available for the selected filters.''
       else Plotly_chart (Bar vc ''Number of Samples per Variant (Filtered)'')])"

text \<open>Section 6.2, lines 120 to 132.\<close>

definition fig_scatter :: "dataframe \<Rightarrow> element list" where
  "fig_scatter f =
     [Subheader ''Timeline of Sample Collection (Filtered)'',
      if length f > 0 then Plotly_chart (Scatter f ''Collection Dates by Variant and Region'')
      else Warning ''No data to display in timeline.'']"

text \<open>Section 6.3, lines 135 to 146.\<close>

definition fig_box :: "dataframe \<Rightarrow> element list" where
  "fig_box f =
     [Subheader ''Genome Length Distribution (Filtered)'',
      if length f > 0 then Plotly_chart (Box f ''Genome Length per Variant'')
      else Warning ''No data to display in box plot.'']"

definition charts :: "dataframe \<Rightarrow> element list" where
  "charts f = fig_bar f @ fig_scatter f @ fig_box f"

fun is_warning :: "element \<Rightarrow> bool" where
  "is_warning (Warning m) = True"
| "is_warning _ = False"

fun is_chart :: "element \<Rightarrow> bool" where
  "is_chart (Plotly_chart g) = True"
| "is_chart _ = False"

subsection \<open>Objects, names and statements\<close>

text \<open>
  Python binds names to objects, and an object may be changed in place. To say which
  statements change the loaded table, the script's statements are also modelled on an
  explicit store: a heap of objects, addressed by their position, and the script's global
  names, each bound to an address. A frame whose \<^verbatim>\<open>Date\<close> column still holds strings is a
  \<open>Raw_frame\<close>. Dates, timestamps and the values of the widgets are immutable and are
  passed as values.
\<close>

type_synonym addr = nat

datatype object =
  Raw_frame "string row list"
| Frame dataframe
| Date_series "timestamp list"
| Str_series "string list"
| Bool_series "bool list"

text \<open>
  What a statement can raise: an error of the table operations above, a name that is not
  bound, or an operand of the wrong kind. \<open>Dangling\<close> is an address outside the heap; no
  statement below produces one, and it only makes reading the heap total.
\<close>

datatype exception = Raised error | NameError | TypeError | Dangling

record store =
  heap :: "object list"
  names :: "string \<rightharpoonup> addr"

type_synonym 'a prog = "store \<Rightarrow> exception + 'a \<times> store"

definition ret :: "'a \<Rightarrow> 'a prog" where
  "ret x st = Inr (x, st)"

definition raise :: "exception \<Rightarrow> 'a prog" where
  "raise e st = Inl e"

text \<open>Sequencing: an exception of the first part ends the script.\<close>

definition andthen :: "'a prog \<Rightarrow> ('a \<Rightarrow> 'b prog) \<Rightarrow> 'b prog" where
  "andthen m k st = (case m st of Inl e \<Rightarrow> Inl e | Inr (x, st') \<Rightarrow> k x st')"

text \<open>
  The three ways a statement touches the heap: a new object at a fresh address, a read,
  and a change of an existing object in place.
\<close>

definition alloc :: "object \<Rightarrow> addr prog" where
  "alloc ob st = Inr (length (heap st), st\<lparr>heap := heap st @ [ob]\<rparr>)"

definition deref :: "addr \<Rightarrow> object prog" where
  "deref a st = (if a < length (heap st) then Inr (heap st ! a, st) else Inl Dangling)"

definition overwrite :: "addr \<Rightarrow> object \<Rightarrow> unit prog" where
  "overwrite a ob st =
     (if a < length (heap st) then Inr ((), st\<lparr>heap := (heap st)[a := ob]\<rparr>)
      else Inl Dangling)"

text \<open>Reading a global name, and the assignment \<^verbatim>\<open>n = ...\<close> to one.\<close>

definition load_name :: "string \<Rightarrow> addr prog" where
  "load_name n st = (case names st n of None \<Rightarrow> Inl NameError | Some a \<Rightarrow> Inr (a, st))"

definition store_name :: "string \<Rightarrow> addr \<Rightarrow> unit prog" where
  "store_name n a st = Inr ((), st\<lparr>names := (names st)(n \<mapsto> a)\<rparr>)"

text \<open>
  The pandas operations of lines 83 to 88. Each reads its operands and returns a new
  object: \<^verbatim>\<open>df['Date']\<close>, \<^verbatim>\<open>df['Region']\<close> and \<^verbatim>\<open>df['Variant']\<close> a series of the column,
  a comparison, \<^verbatim>\<open>isin\<close> and \<^verbatim>\<open>&\<close> a boolean series, and \<^verbatim>\<open>df[mask]\<close> a frame.
\<close>

definition getitem_Date :: "addr \<Rightarrow> addr prog" where
  "getitem_Date a =
     andthen (deref a) (\<lambda>ob. case ob of
        Frame d \<Rightarrow> alloc (Date_series (map Date d))
      | _ \<Rightarrow> raise TypeError)"

definition getitem_Region :: "addr \<Rightarrow> addr prog" where
  "getitem_Region a =
     andthen (deref a) (\<lambda>ob. case ob of
        Frame d \<Rightarrow> alloc (Str_series (map Region d))
      | _ \<Rightarrow> raise TypeError)"

definition getitem_Variant :: "addr \<Rightarrow> addr prog" where
  "getitem_Variant a =
     andthen (deref a) (\<lambda>ob. case ob of
        Frame d \<Rightarrow> alloc (Str_series (map Variant d))
      | _ \<Rightarrow> raise TypeError)"

definition ge_op :: "addr \<Rightarrow> timestamp \<Rightarrow> addr prog" where
  "ge_op a t =
     andthen (deref a) (\<lambda>ob. case ob of
        Date_series col \<Rightarrow> alloc (Bool_series (series_ge col t))
      | _ \<Rightarrow> raise TypeError)"

definition le_op :: "addr \<Rightarrow> timestamp \<Rightarrow> addr prog" where
  "le_op a t =
     andthen (deref a) (\<lambda>ob. case ob of
        Date_series col \<Rightarrow> alloc (Bool_series (series_le col t))
      | _ \<Rightarrow> raise TypeError)"

definition isin_op :: "addr \<Rightarrow> string list \<Rightarrow> addr prog" where
  "isin_op a vals =
     andthen (deref a) (\<lambda>ob. case ob of
        Str_series col \<Rightarrow> alloc (Bool_series (isin col vals))
      | _ \<Rightarrow> raise TypeError)"

definition and_op :: "addr \<Rightarrow> addr \<Rightarrow> addr prog" where
  "and_op a b =
     andthen (deref a) (\<lambda>x. andthen (deref b) (\<lambda>y. case (x, y) of
        (Bool_series p, Bool_series q) \<Rightarrow> alloc (Bool_series (series_and p q))
      | _ \<Rightarrow> raise TypeError))"

definition getitem_mask_op :: "addr \<Rightarrow> addr \<Rightarrow> addr prog" where
  "getitem_mask_op a m =
     andthen (deref a) (\<lambda>x. andthen (deref m) (\<lambda>y. case (x, y) of
        (Frame d, Bool_series msk) \<Rightarrow> alloc (Frame (getitem_mask d msk))
      | _ \<Rightarrow> raise TypeError))"

text \<open>Unpacking a tuple into two names: a \<^verbatim>\<open>ValueError\<close> unless it has two elements.\<close>

definition unpack_pair :: "'a list \<Rightarrow> ('a \<times> 'a) prog" where
  "unpack_pair xs = (case xs of [x, y] \<Rightarrow> ret (x, y) | _ \<Rightarrow> raise (Raised ValueError))"

text \<open>
  Lines 82 to 88 as one statement, in Python's order of evaluation: the frame to be
  indexed, then the four masks from left to right, each joined to the masks before it,
  then the indexing, then the assignment to \<^verbatim>\<open>df_filtered\<close>.
\<close>

definition filter_statement :: "widgets \<Rightarrow> unit prog" where
  "filter_statement w =
     andthen (unpack_pair (date_range w)) (\<lambda>(start_date, end_date).
     andthen (load_name ''df'') (\<lambda>f0.
     andthen (load_name ''df'') (\<lambda>f1.
     andthen (getitem_Date f1) (\<lambda>c1.
     andthen (ge_op c1 (to_datetime_date start_date)) (\<lambda>m1.
     andthen (load_name ''df'') (\<lambda>f2.
     andthen (getitem_Date f2) (\<lambda>c2.
     andthen (le_op c2 (to_datetime_date end_date)) (\<lambda>m2.
     andthen (and_op m1 m2) (\<lambda>m12.
     andthen (load_name ''df'') (\<lambda>f3.
     andthen (getitem_Region f3) (\<lambda>c3.
     andthen (isin_op c3 (selected_regions w)) (\<lambda>m3.
     andthen (and_op m12 m3) (\<lambda>m123.
     andthen (load_name ''df'') (\<lambda>f4.
     andthen (getitem_Variant f4) (\<lambda>c4.
     andthen (isin_op c4 (selected_variants w)) (\<lambda>m4.
     andthen (and_op m123 m4) (\<lambda>m1234.
     andthen (getitem_mask_op f0 m1234) (\<lambda>res.
     store_name ''df_filtered'' res))))))))))))))))))"

text \<open>
  Line 45, \<^verbatim>\<open>df['Date'] = pd.to_datetime(df['Date'])\<close>: an assignment into the frame, which
  changes the object in place.
\<close>

definition setitem_Date_to_datetime :: "addr \<Rightarrow> unit prog" where
  "setitem_Date_to_datetime a =
     andthen (deref a) (\<lambda>ob. case ob of
        Raw_frame r \<Rightarrow>
          (case set_Date_to_datetime r of
             Inl e \<Rightarrow> raise (Raised e)
           | Inr d \<Rightarrow> overwrite a (Frame d))
      | _ \<Rightarrow> raise TypeError)"

text \<open>The call \<^verbatim>\<open>load_data()\<close>, lines 34 to 46: it returns the frame it built and changed.\<close>

definition load_data_call :: "addr prog" where
  "load_data_call =
     (case DataFrame data of
        Inl e \<Rightarrow> raise (Raised e)
      | Inr raw \<Rightarrow>
          andthen (alloc (Raw_frame raw)) (\<lambda>a.
          andthen (setitem_Date_to_datetime a) (\<lambda>_. ret a)))"

text \<open>Line 48, \<^verbatim>\<open>df = load_data()\<close>, and the store the script starts in.\<close>

definition load_statement :: "unit prog" where
  "load_statement = andthen load_data_call (\<lambda>a. store_name ''df'' a)"

definition empty_store :: store where
  "empty_store = \<lparr>heap = [], names = Map.empty\<rparr>"

text \<open>
  The table of line 48, \<^verbatim>\<open>df = load_data()\<close>. Loading does not fail (lemma
  \<open>load_data_rows\<close> below), so the first case is never taken.
\<close>

definition df :: dataframe where
  "df = (case load_data of Inl e \<Rightarrow> [] | Inr d \<Rightarrow> d)"

subsection \<open>The filter as the specification words it\<close>

text \<open>
  These two definitions follow the specification, not the code: a sample matches the date
  predicate iff start <= collection date <= end, and it is kept iff it matches the date
  predicate and its region and its variant are members of the selected sets.
\<close>

definition spec_date_predicate :: "date \<Rightarrow> date \<Rightarrow> timestamp row \<Rightarrow> bool" where
  "spec_date_predicate start_date end_date r = (start_date \<le> Date r \<and> Date r \<le> end_date)"

definition spec_matches :: "date \<Rightarrow> date \<Rightarrow> string list \<Rightarrow> string list \<Rightarrow> timestamp row \<Rightarrow> bool" where
  "spec_matches start_date end_date regions variants r =
     (spec_date_predicate start_date end_date r \<and> Region r \<in> set regions \<and>
      Variant r \<in> set variants)"

section \<open>Properties\<close>

subsection \<open>The loaded table\<close>

lemma load_data_rows:
  "load_data = Inr
     [\<lparr>row_label = 0, Sample_ID = ''BR001'', Date = (2021, 1, 15), Region = ''Brazil'',
        Variant = ''Gamma'', Genome_Length = 29903\<rparr>,
      \<lparr>row_label = 1, Sample_ID = ''BR002'', Date = (2021, 2, 10), Region = ''Brazil'',
        Variant = ''Gamma'', Genome_Length = 29903\<rparr>,
      \<lparr>row_label = 2, Sample_ID = ''BR003'', Date = (2021, 3, 5), Region = ''Brazil'',
        Variant = ''Delta'', Genome_Length = 29850\<rparr>,
      \<lparr>row_label = 3, Sample_ID = ''MX001'', Date = (2021, 2, 20), Region = ''Mexico'',
        Variant = ''Delta'', Genome_Length = 29900\<rparr>,
      \<lparr>row_label = 4, Sample_ID = ''MX002'', Date = (2021, 3, 12), Region = ''Mexico'',
        Variant = ''Omicron'', Genome_Length = 29870\<rparr>,
      \<lparr>row_label = 5, Sample_ID = ''US001'', Date = (2021, 1, 25), Region = ''USA'',
        Variant = ''Delta'', Genome_Length = 29910\<rparr>,
      \<lparr>row_label = 6, Sample_ID = ''US002'', Date = (2021, 2, 15), Region = ''USA'',
        Variant = ''Omicron'', Genome_Length = 29865\<rparr>,
      \<lparr>row_label = 7, Sample_ID = ''US003'', Date = (2021, 3, 2), Region = ''USA'',
        Variant = ''Gamma'', Genome_Length = 29903\<rparr>]"
  by (simp add: load_data_def DataFrame_def data_def to_datetime_def digit_def number_def
      days_in_month_def leap_year_def)

lemma load_data_df: "load_data = Inr df"
  by (simp add: df_def load_data_rows)

lemma df_rows:
  "df =
     [\<lparr>row_label = 0, Sample_ID = ''BR001'', Date = (2021, 1, 15), Region = ''Brazil'',
        Variant = ''Gamma'', Genome_Length = 29903\<rparr>,
      \<lparr>row_label = 1, Sample_ID = ''BR002'', Date = (2021, 2, 10), Region = ''Brazil'',
        Variant = ''Gamma'', Genome_Length = 29903\<rparr>,
      \<lparr>row_label = 2, Sample_ID = ''BR003'', Date = (2021, 3, 5), Region = ''Brazil'',
        Variant = ''Delta'', Genome_Length = 29850\<rparr>,
      \<lparr>row_label = 3, Sample_ID = ''MX001'', Date = (2021, 2, 20), Region = ''Mexico'',
        Variant = ''Delta'', Genome_Length = 29900\<rparr>,
      \<lparr>row_label = 4, Sample_ID = ''MX002'', Date = (2021, 3, 12), Region = ''Mexico'',
        Variant = ''Omicron'', Genome_Length = 29870\<rparr>,
      \<lparr>row_label = 5, Sample_ID = ''US001'', Date = (2021, 1, 25), Region = ''USA'',
        Variant = ''Delta'', Genome_Length = 29910\<rparr>,
      \<lparr>row_label = 6, Sample_ID = ''US002'', Date = (2021, 2, 15), Region = ''USA'',
        Variant = ''Omicron'', Genome_Length = 29865\<rparr>,
      \<lparr>row_label = 7, Sample_ID = ''US003'', Date = (2021, 3, 2), Region = ''USA'',
        Variant = ''Gamma'', Genome_Length = 29903\<rparr>]"
  by (simp add: df_def load_data_rows)

subsection \<open>Masks\<close>

lemma getitem_mask_map: "getitem_mask xs (map P xs) = filter P xs"
  by (induction xs) (simp_all add: getitem_mask_def)

lemma series_and_map: "series_and (map P xs) (map Q xs) = map (\<lambda>x. P x \<and> Q x) xs"
  by (induction xs) (simp_all add: series_and_def)

lemma df_filtered_filter:
  "df_filtered d (filter_state s e rs vs) = Inr (filter (spec_matches s e rs vs) d)"
proof -
  have "series_and
          (series_and
            (series_and (series_ge (map Date d) (to_datetime_date s))
               (series_le (map Date d) (to_datetime_date e)))
            (isin (map Region d) rs))
          (isin (map Variant d) vs)
        = map (spec_matches s e rs vs) d"
    by (simp add: series_ge_def series_le_def isin_def to_datetime_date_def
        series_and_map spec_matches_def spec_date_predicate_def o_def)
  then show ?thesis
    by (simp add: df_filtered_def filter_state_def getitem_mask_map)
qed

subsection \<open>The filtered view\<close>

text \<open>
  C1. For every date interval, every selection of regions and every selection of variants,
  the filtered view of the loaded table of eight rows is exactly the rows of that table
  whose date lies in the interval and whose region is selected and whose variant is
  selected, in the table's order.
\<close>

theorem filtered_view_is_conjunction:
  "load_data = Inr df \<and> length df = 8 \<and>
   df_filtered df (filter_state s e rs vs) = Inr (filter (spec_matches s e rs vs) df)"
proof -
  have "length df = 8"
    by (simp add: df_rows)
  then show ?thesis
    by (simp add: load_data_df df_filtered_filter)
qed

text \<open>
  The same at one filter state: February 2021, the regions USA and Mexico, the variant Delta keep the one row MX001.
\<close>

theorem filtered_view_is_conjunction_witness:
  "df_filtered df (filter_state (2021, 2, 1) (2021, 2, 28) [''USA'', ''Mexico''] [''Delta''])
   = Inr (filter (spec_matches (2021, 2, 1) (2021, 2, 28) [''USA'', ''Mexico''] [''Delta'']) df) \<and>
   filter (spec_matches (2021, 2, 1) (2021, 2, 28) [''USA'', ''Mexico''] [''Delta'']) df = [df ! 3]"
  using filtered_view_is_conjunction
    [of "(2021, 2, 1)" "(2021, 2, 28)" "[''USA'', ''Mexico'']" "[''Delta'']"]
  by (simp add: df_rows spec_matches_def spec_date_predicate_def)

text \<open>
  C8. On the loaded table, the regions [Brazil], the variants [Gamma, Delta] and the dates
  2021-01-15 to 2021-03-12 give exactly the three rows BR001, BR002 and BR003.
\<close>

theorem brazil_gamma_delta_scenario:
  "df_filtered df (filter_state (2021, 1, 15) (2021, 3, 12) [''Brazil''] [''Gamma'', ''Delta''])
   = Inr
      [\<lparr>row_label = 0, Sample_ID = ''BR001'', Date = (2021, 1, 15), Region = ''Brazil'',
         Variant = ''Gamma'', Genome_Length = 29903\<rparr>,
       \<lparr>row_label = 1, Sample_ID = ''BR002'', Date = (2021, 2, 10), Region = ''Brazil'',
         Variant = ''Gamma'', Genome_Length = 29903\<rparr>,
       \<lparr>row_label = 2, Sample_ID = ''BR003'', Date = (2021, 3, 5), Region = ''Brazil'',
         Variant = ''Delta'', Genome_Length = 29850\<rparr>]"
  by (simp add: df_filtered_filter df_rows spec_matches_def spec_date_predicate_def)

text \<open>
  The sample identifiers of the three rows of that scenario.
\<close>

theorem brazil_gamma_delta_scenario_witness:
  "map_sum id (map Sample_ID)
     (df_filtered df
        (filter_state (2021, 1, 15) (2021, 3, 12) [''Brazil''] [''Gamma'', ''Delta'']))
   = Inr [''BR001'', ''BR002'', ''BR003'']"
  using brazil_gamma_delta_scenario by simp

subsection \<open>The variant-frequency table\<close>

lemma set_unique: "set (unique xs) = set xs"
  by (induction xs rule: unique.induct) auto

lemma distinct_unique: "distinct (unique xs)"
  by (induction xs rule: unique.induct) (auto simp: set_unique)

lemma sum_count_unique: "sum_list (map (count_list xs) (unique xs)) = length xs"
  by (simp add: sum_list_distinct_conv_sum_set distinct_unique set_unique sum_count_set)

lemma distinct_value_counts: "distinct (map fst (value_counts col))"
proof -
  have "mset (map fst (value_counts col)) = mset (unique col)"
    by (simp add: value_counts_def multiset.map_comp o_def)
  then show ?thesis
    using distinct_unique mset_eq_imp_distinct_iff by blast
qed

lemma set_value_counts:
  "set (value_counts col) = (\<lambda>v. (v, count_list col v)) ` set col"
  by (simp add: value_counts_def set_unique)

lemma sorted_value_counts: "sorted_wrt (\<ge>) (map snd (value_counts col))"
proof -
  have "sorted (map (\<lambda>p. - int (snd p)) (value_counts col))"
    by (simp add: value_counts_def)
  then show ?thesis
    by (simp add: sorted_wrt_map)
qed

lemma sum_value_counts: "sum_list (map snd (value_counts col)) = length col"
proof -
  have "mset (map snd (value_counts col)) = mset (map (count_list col) (unique col))"
    by (simp add: value_counts_def multiset.map_comp o_def)
  then have "sum_list (map snd (value_counts col)) = sum_list (map (count_list col) (unique col))"
    by (metis sum_mset_sum_list)
  then show ?thesis
    by (simp add: sum_count_unique)
qed

lemma count_list_column:
  "count_list (map Variant f) v = length (filter (\<lambda>r. Variant r = v) f)"
  by (induction f) simp_all

lemma value_counts_empty_iff: "value_counts col = [] \<longleftrightarrow> col = []"
proof -
  have "set (value_counts col) = {} \<longleftrightarrow> set col = {}"
    by (simp add: set_value_counts)
  then show ?thesis by simp
qed

lemma variant_counts_df:
  "variant_counts df = [(''Gamma'', 3), (''Delta'', 3), (''Omicron'', 2)]"
  by (simp add: variant_counts_def value_counts_def df_rows)

subsection \<open>Inclusive bounds\<close>

text \<open>
  C2, as stated for every filter state, fails where the interval is malformed. With start
  2021-03-12 and end 2021-01-15, the row MX002 has the start as its date and passes the
  region and variant predicates, and the filtered view is empty.
\<close>

theorem inclusive_bounds_counterexample:
  "df ! 4 \<in> set df \<and> Date (df ! 4) = (2021, 3, 12) \<and> Region (df ! 4) \<in> set [''Mexico''] \<and>
   Variant (df ! 4) \<in> set [''Omicron''] \<and>
   df_filtered df (filter_state (2021, 3, 12) (2021, 1, 15) [''Mexico''] [''Omicron'']) = Inr []"
  by (simp add: df_filtered_filter df_rows spec_matches_def spec_date_predicate_def)

text \<open>
  C2, amended. For every filter state with start <= end, a row of the table whose date
  equals start or equals end satisfies the date predicate, and is in the filtered view
  whenever its region and its variant are selected.
\<close>

theorem inclusive_bounds:
  assumes "s \<le> e" and "r \<in> set d" and "Date r = s \<or> Date r = e"
    and "Region r \<in> set rs" and "Variant r \<in> set vs"
  shows "spec_date_predicate s e r \<and>
         (\<exists>f. df_filtered d (filter_state s e rs vs) = Inr f \<and> r \<in> set f)"
  using assms by (auto simp: df_filtered_filter spec_matches_def spec_date_predicate_def)

text \<open>
  The row BR003, collected on 2021-03-05, with that date as the end of the interval.
\<close>

theorem inclusive_bounds_witness:
  "((2021, 1, 15) :: date) \<le> (2021, 3, 5) \<and> df ! 2 \<in> set df \<and> Date (df ! 2) = (2021, 3, 5) \<and>
   Region (df ! 2) \<in> set [''Brazil''] \<and> Variant (df ! 2) \<in> set [''Delta''] \<and>
   spec_date_predicate (2021, 1, 15) (2021, 3, 5) (df ! 2) \<and>
   (\<exists>f. df_filtered df (filter_state (2021, 1, 15) (2021, 3, 5) [''Brazil''] [''Delta'']) = Inr f
        \<and> df ! 2 \<in> set f)"
  using inclusive_bounds [of "(2021, 1, 15)" "(2021, 3, 5)" "df ! 2" df "[''Brazil'']" "[''Delta'']"]
  by (simp add: df_rows)

subsection \<open>Empty selections and malformed intervals\<close>

text \<open>
  C3. For every table and date interval, an empty selection of regions gives an empty
  filtered view, and so does an empty selection of variants.
\<close>

theorem empty_selection_gives_empty_view:
  "df_filtered d (filter_state s e [] vs) = Inr [] \<and>
   df_filtered d (filter_state s e rs []) = Inr []"
  by (simp add: df_filtered_filter spec_matches_def)

text \<open>
  On the loaded table with the full date range; with both selections non-empty the view is not empty.
\<close>

theorem empty_selection_gives_empty_view_witness:
  "df_filtered df (filter_state (2021, 1, 15) (2021, 3, 12) [] [''Gamma'']) = Inr [] \<and>
   df_filtered df (filter_state (2021, 1, 15) (2021, 3, 12) [''USA''] []) = Inr [] \<and>
   df_filtered df (filter_state (2021, 1, 15) (2021, 3, 12) [''USA''] [''Gamma'']) \<noteq> Inr []"
  using empty_selection_gives_empty_view
    [of df "(2021, 1, 15)" "(2021, 3, 12)" "[''Gamma'']" "[''USA'']"]
  by (simp add: df_filtered_filter df_rows spec_matches_def spec_date_predicate_def)

text \<open>
  C4. For every filter state whose end lies before its start, the filter returns, and
  returns the empty view: the result is \<open>Inr []\<close>, not an error.
\<close>

theorem malformed_interval_gives_empty_view:
  "e < s \<Longrightarrow> df_filtered d (filter_state s e rs vs) = Inr []"
  by (auto simp: df_filtered_filter spec_matches_def spec_date_predicate_def filter_empty_conv)

text \<open>
  The full date range reversed, with every region and every variant selected.
\<close>

theorem malformed_interval_gives_empty_view_witness:
  "((2021, 1, 15) :: date) < (2021, 3, 12) \<and>
   df_filtered df
     (filter_state (2021, 3, 12) (2021, 1, 15) [''Brazil'', ''Mexico'', ''USA'']
        [''Delta'', ''Gamma'', ''Omicron'']) = Inr []"
  using malformed_interval_gives_empty_view
    [of "(2021, 1, 15)" "(2021, 3, 12)" df "[''Brazil'', ''Mexico'', ''USA'']"
      "[''Delta'', ''Gamma'', ''Omicron'']"]
  by simp

subsection \<open>Subset and idempotence\<close>

text \<open>
  C5. For every filter state the filtered view holds rows of the table only, and no row
  more often than the table does.
\<close>

theorem filtered_view_is_subset:
  "\<exists>f. df_filtered d (filter_state s e rs vs) = Inr f \<and> set f \<subseteq> set d \<and> mset f \<subseteq># mset d"
  by (simp add: df_filtered_filter)

text \<open>
  February 2021, USA, Omicron: the view is the row US002 of the table.
\<close>

theorem filtered_view_is_subset_witness:
  "\<exists>f. df_filtered df (filter_state (2021, 2, 1) (2021, 2, 28) [''USA''] [''Omicron'']) = Inr f \<and>
       set f \<subseteq> set df \<and> mset f \<subseteq># mset df \<and> f = [df ! 6]"
  using filtered_view_is_subset [of df "(2021, 2, 1)" "(2021, 2, 28)" "[''USA'']" "[''Omicron'']"]
  by (simp add: df_filtered_filter df_rows spec_matches_def spec_date_predicate_def)

text \<open>
  C6. For every filter state, filtering the filtered view again with the same filter state
  gives the filtered view.
\<close>

theorem filtering_is_idempotent:
  "\<exists>f. df_filtered d (filter_state s e rs vs) = Inr f \<and>
       df_filtered f (filter_state s e rs vs) = Inr f"
  by (simp add: df_filtered_filter)

text \<open>
  From 2021-02-01, Brazil, Gamma: the view is the row BR002, and filtering it again keeps it.
\<close>

theorem filtering_is_idempotent_witness:
  "\<exists>f. df_filtered df (filter_state (2021, 2, 1) (2021, 3, 12) [''Brazil''] [''Gamma'']) = Inr f \<and>
       df_filtered f (filter_state (2021, 2, 1) (2021, 3, 12) [''Brazil''] [''Gamma'']) = Inr f \<and>
       f = [df ! 1]"
  using filtering_is_idempotent
    [of df "(2021, 2, 1)" "(2021, 3, 12)" "[''Brazil'']" "[''Gamma'']"]
  by (simp add: df_filtered_filter df_rows spec_matches_def spec_date_predicate_def)

subsection \<open>Charts\<close>

text \<open>
  C7. For every filtered view: if it is empty, each of the three charts is a warning and
  no chart is drawn; if it is not empty, each of the three charts is drawn and no warning
  is written.
\<close>

theorem charts_warn_iff_view_empty:
  assumes "df_filtered d w = Inr f"
  shows "(f = [] \<longrightarrow>
            fig_bar f = [Subheader ''Frequency of Variants (Filtered)'',
                         Warning ''No data available for the selected filters.''] \<and>
            fig_scatter f = [Subheader ''Timeline of Sample Collection (Filtered)'',
                             Warning ''No data to display in timeline.''] \<and>
            fig_box f = [Subheader ''Genome Length Distribution (Filtered)'',
                         Warning ''No data to display in box plot.''] \<and>
            filter is_chart (charts f) = []) \<and>
         (f \<noteq> [] \<longrightarrow>
            fig_bar f = [Subheader ''Frequency of Variants (Filtered)'',
                         Plotly_chart (Bar (variant_counts f)
                           ''Number of Samples per Variant (Filtered)'')] \<and>
            fig_scatter f = [Subheader ''Timeline of Sample Collection (Filtered)'',
                             Plotly_chart (Scatter f ''Collection Dates by Variant and Region'')] \<and>
            fig_box f = [Subheader ''Genome Length Distribution (Filtered)'',
                         Plotly_chart (Box f ''Genome Length per Variant'')] \<and>
            filter is_warning (charts f) = [])"
proof -
  have vc: "variant_counts f = [] \<longleftrightarrow> f = []"
    by (simp add: variant_counts_def value_counts_empty_iff)
  show ?thesis
  proof (cases "f = []")
    case True
    with vc show ?thesis
      by (simp add: fig_bar_def fig_scatter_def fig_box_def charts_def)
  next
    case False
    with vc show ?thesis
      by (simp add: fig_bar_def fig_scatter_def fig_box_def charts_def)
  qed
qed

text \<open>
  An empty view (USA, Gamma, 15 to 20 January 2021) and a view of one row (US003).
\<close>

theorem charts_warn_iff_view_empty_witness:
  "df_filtered df (filter_state (2021, 1, 15) (2021, 1, 20) [''USA''] [''Gamma'']) = Inr [] \<and>
   charts [] =
     [Subheader ''Frequency of Variants (Filtered)'',
      Warning ''No data available for the selected filters.'',
      Subheader ''Timeline of Sample Collection (Filtered)'',
      Warning ''No data to display in timeline.'',
      Subheader ''Genome Length Distribution (Filtered)'',
      Warning ''No data to display in box plot.''] \<and>
   df_filtered df (filter_state (2021, 2, 25) (2021, 3, 12) [''USA''] [''Gamma'']) = Inr [df ! 7] \<and>
   charts [df ! 7] =
     [Subheader ''Frequency of Variants (Filtered)'',
      Plotly_chart (Bar [(''Gamma'', 1)] ''Number of Samples per Variant (Filtered)''),
      Subheader ''Timeline of Sample Collection (Filtered)'',
      Plotly_chart (Scatter [df ! 7] ''Collection Dates by Variant and Region''),
      Subheader ''Genome Length Distribution (Filtered)'',
      Plotly_chart (Box [df ! 7] ''Genome Length per Variant'')]"
proof -
  have a: "df_filtered df (filter_state (2021, 1, 15) (2021, 1, 20) [''USA''] [''Gamma'']) = Inr []"
    by (simp add: df_filtered_filter df_rows spec_matches_def spec_date_predicate_def)
  have b: "df_filtered df (filter_state (2021, 2, 25) (2021, 3, 12) [''USA''] [''Gamma''])
           = Inr [df ! 7]"
    by (simp add: df_filtered_filter df_rows spec_matches_def spec_date_predicate_def)
  have c: "variant_counts [df ! 7] = [(''Gamma'', 1)]"
    by (simp add: variant_counts_def value_counts_def df_rows)
  show ?thesis
    using charts_warn_iff_view_empty [OF a] charts_warn_iff_view_empty [OF b] a b c
    by (simp add: charts_def)
qed

text \<open>
  C10. For every filtered view, the variant-frequency table has one entry per distinct
  variant of the view, each with the number of rows of that variant, the counts do not
  increase along the table, and they add up to the number of rows of the view.
\<close>

theorem variant_counts_table:
  "distinct (map fst (variant_counts f)) \<and>
   set (map fst (variant_counts f)) = set (map Variant f) \<and>
   (\<forall>(v, c) \<in> set (variant_counts f). c = length (filter (\<lambda>r. Variant r = v) f)) \<and>
   sorted_wrt (\<ge>) (map snd (variant_counts f)) \<and>
   sum_list (map snd (variant_counts f)) = length f"
proof -
  have "set (map fst (variant_counts f)) = set (map Variant f)"
    by (simp add: variant_counts_def set_value_counts image_image)
  moreover have "\<forall>(v, c) \<in> set (variant_counts f). c = length (filter (\<lambda>r. Variant r = v) f)"
    by (auto simp: variant_counts_def set_value_counts count_list_column)
  moreover have "sum_list (map snd (variant_counts f)) = length f"
    by (simp add: variant_counts_def sum_value_counts)
  ultimately show ?thesis
    by (simp add: variant_counts_def distinct_value_counts sorted_value_counts)
qed

text \<open>
  The variant-frequency table of the whole loaded table.
\<close>

theorem variant_counts_table_witness:
  "variant_counts df = [(''Gamma'', 3), (''Delta'', 3), (''Omicron'', 2)] \<and>
   (''Omicron'', 2) \<in> set (variant_counts df) \<and>
   2 = length (filter (\<lambda>r. Variant r = ''Omicron'') df) \<and>
   sum_list (map snd (variant_counts df)) = length df"
  using variant_counts_table [of df] by (simp add: variant_counts_df)

subsection \<open>The table is not changed\<close>

text \<open>
  Line 45 changes the frame in place: the object at the frame's address is another one
  afterwards.
\<close>

lemma setitem_Date_in_place:
  assumes "a < length (heap st)" and "heap st ! a = Raw_frame raw"
    and "set_Date_to_datetime raw = Inr d"
  shows "setitem_Date_to_datetime a st = Inr ((), st\<lparr>heap := (heap st)[a := Frame d]\<rparr>)"
  using assms
  by (simp add: setitem_Date_to_datetime_def andthen_def deref_def overwrite_def)

text \<open>Loading puts the table at a fresh address and binds \<^verbatim>\<open>df\<close> to it.\<close>

lemma load_data_call_run:
  "load_data_call st = Inr (length (heap st), st\<lparr>heap := heap st @ [Frame df]\<rparr>)"
proof (cases "DataFrame data")
  case (Inl e)
  then show ?thesis
    using load_data_df by (simp add: load_data_def)
next
  case (Inr raw)
  then have "set_Date_to_datetime raw = Inr df"
    using load_data_df by (simp add: load_data_def)
  with Inr show ?thesis
    by (simp add: load_data_call_def setitem_Date_to_datetime_def andthen_def alloc_def
        deref_def overwrite_def ret_def)
qed

lemma load_statement_empty:
  "load_statement empty_store = Inr ((), \<lparr>heap = [Frame df], names = [''df'' \<mapsto> 0]\<rparr>)"
  by (simp add: load_statement_def andthen_def load_data_call_run store_name_def
      empty_store_def)

text \<open>
  C9. For every filter state and every store in which \<^verbatim>\<open>df\<close> is bound to a frame, the
  filter statement returns, and afterwards \<^verbatim>\<open>df\<close> is bound to the same object, that object
  holds the same rows, and every object that existed before is as it was. The filtered
  view is a new object at another address, bound to \<^verbatim>\<open>df_filtered\<close>, and holds the rows
  that the filter computes.
\<close>

theorem filtering_leaves_table_unchanged:
  assumes "names st ''df'' = Some a" and "a < length (heap st)" and "heap st ! a = Frame d"
  shows "\<exists>st' b f.
           filter_statement (filter_state s e rs vs) st = Inr ((), st') \<and>
           names st' ''df'' = Some a \<and> heap st' ! a = Frame d \<and>
           take (length (heap st)) (heap st') = heap st \<and>
           names st' ''df_filtered'' = Some b \<and> b \<noteq> a \<and> b < length (heap st') \<and>
           heap st' ! b = Frame f \<and>
           df_filtered d (filter_state s e rs vs) = Inr f"
  using assms
  by (simp add: filter_statement_def filter_state_def unpack_pair_def ret_def raise_def
      andthen_def load_name_def store_name_def getitem_Date_def getitem_Region_def
      getitem_Variant_def ge_op_def le_op_def isin_op_def and_op_def getitem_mask_op_def
      alloc_def deref_def nth_append df_filtered_def)

text \<open>
  The store after line 48, and the filter statement there at the filter state that keeps
  the row US003.
\<close>

theorem filtering_leaves_table_unchanged_witness:
  "load_statement empty_store = Inr ((), \<lparr>heap = [Frame df], names = [''df'' \<mapsto> 0]\<rparr>) \<and>
   names \<lparr>heap = [Frame df], names = [''df'' \<mapsto> 0]\<rparr> ''df'' = Some 0 \<and>
   0 < length (heap \<lparr>heap = [Frame df], names = [''df'' \<mapsto> 0]\<rparr>) \<and>
   heap \<lparr>heap = [Frame df], names = [''df'' \<mapsto> 0]\<rparr> ! 0 = Frame df \<and>
   (\<exists>st' b.
      filter_statement (filter_state (2021, 2, 25) (2021, 3, 12) [''USA''] [''Gamma''])
        \<lparr>heap = [Frame df], names = [''df'' \<mapsto> 0]\<rparr> = Inr ((), st') \<and>
      names st' ''df'' = Some 0 \<and> heap st' ! 0 = Frame df \<and>
      names st' ''df_filtered'' = Some b \<and> b \<noteq> 0 \<and> heap st' ! b = Frame [df ! 7])"
proof -
  have v: "df_filtered df (filter_state (2021, 2, 25) (2021, 3, 12) [''USA''] [''Gamma''])
           = Inr [df ! 7]"
    by (simp add: df_filtered_filter df_rows spec_matches_def spec_date_predicate_def)
  obtain st' b f where
    "filter_statement (filter_state (2021, 2, 25) (2021, 3, 12) [''USA''] [''Gamma''])
       \<lparr>heap = [Frame df], names = [''df'' \<mapsto> 0]\<rparr> = Inr ((), st')"
    "names st' ''df'' = Some 0" "heap st' ! 0 = Frame df"
    "names st' ''df_filtered'' = Some b" "b \<noteq> 0" "heap st' ! b = Frame f"
    "df_filtered df (filter_state (2021, 2, 25) (2021, 3, 12) [''USA''] [''Gamma'']) = Inr f"
    using filtering_leaves_table_unchanged
      [of "\<lparr>heap = [Frame df], names = [''df'' \<mapsto> 0]\<rparr>" 0 df
        "(2021, 2, 25)" "(2021, 3, 12)" "[''USA'']" "[''Gamma'']"]
    by auto
  with v show ?thesis
    by (auto simp: load_statement_empty)
qed

end
